theory Spec2Isabelle
  imports Main
begin

section \<open>Python values, Torch objects and errors\<close>

text \<open>
  The hook service of Grid (\<^verbatim>\<open>grid/services/torch/hook_service.py\<close>) intercepts
  calls on Torch tensors and variables, compiles them into command dictionaries and
  either runs them locally or forwards them to the worker that owns the operands.
  The exceptions the module can raise are values of \<open>error\<close>; the argument of
  \<open>NameError\<close>, \<open>AttributeError\<close> and \<open>UnboundLocalError\<close> is the name that could
  not be resolved, the argument of \<open>TypeError\<close> is the message.
\<close>

datatype error =
    IndexError
  | KeyError
  | TypeError string
  | NameError string
  | AttributeError string
  | UnboundLocalError string
  | NotImplementedError

text \<open>
  The registration attributes \<^verbatim>\<open>id\<close>, \<^verbatim>\<open>owners\<close> and \<^verbatim>\<open>is_pointer\<close> that the
  registry sets on a Torch object. An object that was never registered has none of
  them (\<open>reg = None\<close>).
\<close>

record registration =
  obj_id :: int
  owners :: "string list"
  is_pointer :: bool

text \<open>
  A Torch object: the name of its class (\<^verbatim>\<open>type(x).__name__\<close>), its local storage
  (\<open>[]\<close> is the zero-sized storage of a pointer), its registration attributes, and
  whether the instance carries an attribute called \<^verbatim>\<open>owner\<close>, which
  \<^verbatim>\<open>overload_method\<close> tests with \<^verbatim>\<open>hasattr\<close>.
\<close>

record torch_obj =
  torch_type :: string
  storage :: "int list"
  reg :: "registration option"
  has_owner_attr :: bool

datatype pyval =
    PNone
  | PBool bool
  | PInt int
  | PStr string
  | PList "pyval list"
  | PTuple "pyval list"
  | PDict "(string \<times> pyval) list"
  | PTorch torch_obj

text \<open>\<^verbatim>\<open>type(x).__name__\<close>\<close>

fun type_name :: "pyval \<Rightarrow> string" where
  "type_name PNone = ''NoneType''"
| "type_name (PBool b) = ''bool''"
| "type_name (PInt i) = ''int''"
| "type_name (PStr s) = ''str''"
| "type_name (PList xs) = ''list''"
| "type_name (PTuple xs) = ''tuple''"
| "type_name (PDict d) = ''dict''"
| "type_name (PTorch t) = torch_type t"

text \<open>
  \<^verbatim>\<open>x[key]\<close> with a string key: a dictionary raises KeyError when the key is missing,
  every other value of this model raises TypeError (not subscriptable, or indices
  must be integers).
\<close>

fun getitem :: "pyval \<Rightarrow> string \<Rightarrow> error + pyval" where
  "getitem (PDict d) key =
     (case map_of d key of None \<Rightarrow> Inl KeyError | Some v \<Rightarrow> Inr v)"
| "getitem v key = Inl (TypeError ''not subscriptable with a string key'')"


section \<open>The command compiler\<close>

text \<open>
  A \<^verbatim>\<open>functools.partial\<close> (or \<^verbatim>\<open>partialmethod\<close>) object: the name of the wrapped
  function, the positional arguments and the keyword arguments in call order. A
  Python dictionary holds each key once, so \<open>p_keywords\<close> pairs every name with the
  value \<^verbatim>\<open>kwargs[name]\<close>.
\<close>

record partial =
  p_func :: string
  p_args :: "pyval list"
  p_keywords :: "(string \<times> pyval) list"

text \<open>The command is a Python dictionary with string keys.\<close>

type_synonym command = "string \<rightharpoonup> pyval"

text \<open>
  \<^verbatim>\<open>compile_command(partial_func, has_self)\<close>. \<^verbatim>\<open>args[0]\<close> raises IndexError when
  \<^verbatim>\<open>has_self\<close> is set and there is no positional argument.
\<close>

definition compile_command :: "partial \<Rightarrow> bool \<Rightarrow> error + command" where
  "compile_command partial_func has_self =
     (let fname = p_func partial_func;
          args0 = p_args partial_func;
          kwargs = p_keywords partial_func;
          command0 = Map.empty(''has_self'' \<mapsto> PBool has_self)
      in case (if has_self
               then (case args0 of
                       [] \<Rightarrow> Inl IndexError
                     | self # rest \<Rightarrow> Inr (command0(''self'' \<mapsto> self), rest))
               else Inr (command0, args0)) of
           Inl e \<Rightarrow> Inl e
         | Inr (command1, args1) \<Rightarrow>
             Inr (command1
                   (''command'' \<mapsto> PStr fname,
                    ''args'' \<mapsto> PTuple args1,
                    ''kwargs'' \<mapsto> PDict kwargs,
                    ''arg_types'' \<mapsto> PList (map (\<lambda>x. PStr (type_name x)) args1),
                    ''kwarg_types'' \<mapsto>
                       PList (map (\<lambda>(x, v). PStr (type_name v)) kwargs))))"

text \<open>\<^verbatim>\<open>compile_command(...)[key]\<close>: one entry of the compiled command.\<close>

definition compiled_item :: "error + command \<Rightarrow> string \<Rightarrow> error + pyval" where
  "compiled_item r key =
     (case r of
        Inl e \<Rightarrow> Inl e
      | Inr c \<Rightarrow> (case c key of None \<Rightarrow> Inl KeyError | Some v \<Rightarrow> Inr v))"

text \<open>
  The data model of the specification, in its own words: \<^verbatim>\<open>kwarg_types\<close> is a
  mapping from the name of each keyword argument to the type tag of its value. It is
  compared below with what \<open>compile_command\<close> stores.
\<close>

definition kwarg_types_spec :: "(string \<times> pyval) list \<Rightarrow> pyval" where
  "kwarg_types_spec kwargs = PDict (map (\<lambda>(x, v). (x, PStr (type_name v))) kwargs)"


section \<open>The service, its collaborators and the registry\<close>

text \<open>
  The channels of \<^verbatim>\<open>grid.channels\<close> that the service uses, each for one recipient,
  and what is put on them: a serialised object (\<^verbatim>\<open>obj.ser(include_data=...)\<close>), the id
  of a requested object, or a command.
\<close>

datatype channel =
    Torch_listen_for_obj string
  | Torch_listen_for_obj_req string
  | Torch_listen_for_command string

datatype message =
    Ser torch_obj bool
  | ObjId int
  | Command command

text \<open>
  The state the service works on: the id of the local worker, the tensor classes and
  the tracked classes (tensor classes and \<^verbatim>\<open>Variable\<close>) of \<^verbatim>\<open>BaseService\<close>, the
  registry's supply of fresh ids, and three logs: every object the registry has
  registered, every message handed to the messaging collaborator
  (\<^verbatim>\<open>publish\<close> and \<^verbatim>\<open>request_response\<close>), and every call that was run in this process.
\<close>

record world =
  worker_id :: string
  tensor_types :: "string list"
  tensorvar_types :: "string list"
  next_id :: int
  registered :: "torch_obj list"
  sent :: "(channel \<times> message) list"
  executed :: "(string \<times> pyval list \<times> (string \<times> pyval) list) list"

text \<open>
  What lies outside the module and is taken as given: the numeric kernel behind a
  captured call (\<^verbatim>\<open>part.func(*args, **kwargs)\<close>), the unpacked answer of a worker to a
  command, the object a worker delivers for an id, and \<^verbatim>\<open>tu.replace_in_command\<close>.
\<close>

record env =
  kernel :: "string \<Rightarrow> pyval list \<Rightarrow> (string \<times> pyval) list \<Rightarrow> error + pyval"
  respond_command :: "string \<Rightarrow> command \<Rightarrow> pyval"
  respond_obj :: "string \<Rightarrow> int \<Rightarrow> torch_obj"
  replace_in_command :: "command \<Rightarrow> command"

text \<open>The keyword arguments of \<^verbatim>\<open>register_object\<close>; \<open>None\<close> is an omitted one.\<close>

record reg_kwargs =
  kw_id :: "int option"
  kw_owners :: "string list option"
  kw_is_pointer :: "bool option"

text \<open>
  Modelled from the spec: \<^verbatim>\<open>BaseService.register_object\<close> is not part of the module.
  The registry contract is \<^verbatim>\<open>register(object, id?, owners?, isPointer?)\<close>, returning
  the object with those fields set and assigning a fresh id if the id is omitted. For
  the other two omitted fields the specification fixes the outcome where the module
  omits them: a call that passes only the id leaves the object a non-pointer and does
  not reset its owners (section 4.5, \<^verbatim>\<open>get\<close>), and an object registered for the first
  time is owned by the local worker (sections 3 and 4.4).
\<close>

definition register_object :: "torch_obj \<Rightarrow> reg_kwargs \<Rightarrow> world \<Rightarrow> torch_obj \<times> world" where
  "register_object obj kw w =
     (let i = (case kw_id kw of Some i \<Rightarrow> i | None \<Rightarrow> next_id w);
          os = (case kw_owners kw of
                  Some os \<Rightarrow> os
                | None \<Rightarrow> (case reg obj of Some r \<Rightarrow> owners r | None \<Rightarrow> [worker_id w]));
          p = (case kw_is_pointer kw of Some p \<Rightarrow> p | None \<Rightarrow> False);
          obj' = obj\<lparr>reg := Some \<lparr>obj_id = i, owners = os, is_pointer = p\<rparr>\<rparr>
      in (obj',
          w\<lparr>next_id := (case kw_id kw of Some i \<Rightarrow> next_id w | None \<Rightarrow> next_id w + 1),
            registered := registered w @ [obj']\<rparr>))"

text \<open>
  \<^verbatim>\<open>new___new__\<close> (installed by \<^verbatim>\<open>hook_tensor___new__\<close> on every tensor class and by
  \<^verbatim>\<open>hook_var___new__\<close> on \<^verbatim>\<open>Variable\<close>) and \<^verbatim>\<open>new___init__\<close> (installed by
  \<^verbatim>\<open>hook_tensor___init__\<close> on every tensor class): each registers the instance as a
  non-pointer.
\<close>

definition new_new :: "string \<Rightarrow> world \<Rightarrow> torch_obj \<times> world" where
  "new_new cls w =
     (let result = \<lparr>torch_type = cls, storage = [], reg = None, has_owner_attr = False\<rparr>
      in register_object result
           \<lparr>kw_id = None, kw_owners = None, kw_is_pointer = Some False\<rparr> w)"

definition new_init :: "torch_obj \<Rightarrow> world \<Rightarrow> torch_obj \<times> world" where
  "new_init self w =
     register_object self \<lparr>kw_id = None, kw_owners = None, kw_is_pointer = Some False\<rparr> w"

text \<open>
  \<^verbatim>\<open>cls(0)\<close>, a zero-sized instance, once the classes are hooked: a tensor class runs
  the hooked \<^verbatim>\<open>__new__\<close> and \<^verbatim>\<open>__init__\<close>, the other tracked class (\<^verbatim>\<open>Variable\<close>) the
  hooked \<^verbatim>\<open>__new__\<close> only.
\<close>

definition construct :: "string \<Rightarrow> world \<Rightarrow> torch_obj \<times> world" where
  "construct cls w =
     (if cls \<in> set (tensor_types w)
      then (let (result, w1) = new_new cls w in new_init result w1)
      else new_new cls w)"

text \<open>\<^verbatim>\<open>self.old_set_(source)\<close>: Torch's \<^verbatim>\<open>set_\<close>; afterwards \<open>self\<close> has the storage of the source.\<close>

definition old_set :: "torch_obj \<Rightarrow> torch_obj \<Rightarrow> torch_obj" where
  "old_set self source = self\<lparr>storage := storage source\<rparr>"


section \<open>The location resolver\<close>

text \<open>
  Modelled from the spec: \<^verbatim>\<open>tu.get_tensorvars\<close>, \<^verbatim>\<open>tu.check_remote\<close> and
  \<^verbatim>\<open>tu.get_owners\<close> of \<^verbatim>\<open>grid/lib/torch_utils.py\<close> are not part of the module. Section
  4.3: the resolver collects every tensor-like operand of the command (self, args,
  kwargs); an operand is remote when \<^verbatim>\<open>is_pointer\<close> is true; the owners are the union of
  the operands' owners, and more than one distinct worker in that union is the
  multi-owner case.
\<close>

definition operands :: "command \<Rightarrow> pyval list" where
  "operands command =
     (case command ''self'' of Some v \<Rightarrow> [v] | None \<Rightarrow> []) @
     (case command ''args'' of Some (PTuple xs) \<Rightarrow> xs | _ \<Rightarrow> []) @
     (case command ''kwargs'' of Some (PDict d) \<Rightarrow> map snd d | _ \<Rightarrow> [])"

fun tensorlike :: "string list \<Rightarrow> pyval list \<Rightarrow> torch_obj list" where
  "tensorlike tys [] = []"
| "tensorlike tys (PTorch t # vs) =
     (if torch_type t \<in> set tys then t # tensorlike tys vs else tensorlike tys vs)"
| "tensorlike tys (v # vs) = tensorlike tys vs"

definition get_tensorvars :: "world \<Rightarrow> command \<Rightarrow> torch_obj list" where
  "get_tensorvars w command = tensorlike (tensorvar_types w) (operands command)"

definition remote :: "torch_obj \<Rightarrow> bool" where
  "remote t = (case reg t of Some r \<Rightarrow> is_pointer r | None \<Rightarrow> False)"

definition check_remote :: "torch_obj list \<Rightarrow> bool" where
  "check_remote tensorvars = list_ex remote tensorvars"

definition owners_of :: "torch_obj \<Rightarrow> string list" where
  "owners_of t = (case reg t of Some r \<Rightarrow> owners r | None \<Rightarrow> [])"

definition get_owners :: "torch_obj list \<Rightarrow> bool \<times> string list" where
  "get_owners tensorvars =
     (let os = remdups (concat (map owners_of tensorvars)) in (1 < length os, os))"

text \<open>
  Modelled from the spec: \<^verbatim>\<open>tu.types_guard\<close> is not part of the module. It resolves the
  name of a result type to a tracked class; the module shows that it raises KeyError
  for a name it does not recognise.
\<close>

definition types_guard :: "world \<Rightarrow> pyval \<Rightarrow> error + string" where
  "types_guard w v =
     (case v of
        PStr s \<Rightarrow> (if s \<in> set (tensorvar_types w) then Inr s else Inl KeyError)
      | _ \<Rightarrow> Inl KeyError)"

text \<open>
  Modelled from the spec: \<^verbatim>\<open>tu.check_workers\<close> is not part of the module. Section 4.5:
  the destinations, one worker id or a sequence of them, are normalised to a non-empty
  ordered sequence; the module's comment says it makes a singleton if needed.
\<close>

datatype workers_arg = One string | Many "string list"

definition check_workers :: "workers_arg \<Rightarrow> error + string list" where
  "check_workers workers =
     (case workers of
        One s \<Rightarrow> Inr [s]
      | Many ws \<Rightarrow> (if ws = [] then Inl (TypeError ''no workers'') else Inr ws))"


section \<open>Registration and communication handlers\<close>

text \<open>\<^verbatim>\<open>send_obj(obj, recipient)\<close>\<close>

definition send_obj :: "torch_obj \<Rightarrow> string \<Rightarrow> world \<Rightarrow> world" where
  "send_obj obj recipient w =
     w\<lparr>sent := sent w @ [(Torch_listen_for_obj recipient, Ser obj True)]\<rparr>"

text \<open>\<^verbatim>\<open>request_obj(obj, sender)\<close>; the message is \<^verbatim>\<open>obj.id\<close>.\<close>

definition request_obj ::
  "env \<Rightarrow> torch_obj \<Rightarrow> string \<Rightarrow> world \<Rightarrow> (error + torch_obj) \<times> world" where
  "request_obj E obj sender w =
     (case reg obj of
        None \<Rightarrow> (Inl (AttributeError ''id''), w)
      | Some r \<Rightarrow>
          (Inr (respond_obj E sender (obj_id r)),
           w\<lparr>sent := sent w @ [(Torch_listen_for_obj_req sender, ObjId (obj_id r))]\<rparr>))"

text \<open>\<^verbatim>\<open>process_response(response)\<close>, after \<^verbatim>\<open>utils.unpack\<close>.\<close>

definition process_response :: "pyval \<Rightarrow> error + pyval" where
  "process_response response =
     (case getitem response ''numeric'' of
        Inl e \<Rightarrow> (if e = KeyError then Inr response else Inl e)
      | Inr v \<Rightarrow> Inr v)"

text \<open>\<^verbatim>\<open>send_command(command, recipient)\<close>\<close>

definition send_command ::
  "env \<Rightarrow> command \<Rightarrow> string \<Rightarrow> world \<Rightarrow> (error + pyval) \<times> world" where
  "send_command E command recipient w =
     (process_response (respond_command E recipient command),
      w\<lparr>sent := sent w @ [(Torch_listen_for_command recipient, Command command)]\<rparr>)"

text \<open>
  \<^verbatim>\<open>**registration\<close> against the registry's keywords: the value has to be a dictionary
  whose keys are among \<^verbatim>\<open>id\<close>, \<^verbatim>\<open>owners\<close> and \<^verbatim>\<open>is_pointer\<close>, with an integer, a list of
  strings and a boolean as values; anything else is a TypeError here.
\<close>

fun str_list :: "pyval list \<Rightarrow> string list option" where
  "str_list [] = Some []"
| "str_list (PStr s # vs) = map_option (\<lambda>ss. s # ss) (str_list vs)"
| "str_list (v # vs) = None"

fun kwarg_ok :: "string \<times> pyval \<Rightarrow> bool" where
  "kwarg_ok (k, PInt i) = (k = ''id'')"
| "kwarg_ok (k, PList vs) = (k = ''owners'' \<and> str_list vs \<noteq> None)"
| "kwarg_ok (k, PBool b) = (k = ''is_pointer'')"
| "kwarg_ok (k, v) = False"

definition kwargs_of :: "pyval \<Rightarrow> error + reg_kwargs" where
  "kwargs_of v =
     (case v of
        PDict d \<Rightarrow>
          (if list_all kwarg_ok d
           then Inr \<lparr>kw_id = (case map_of d ''id'' of Some (PInt i) \<Rightarrow> Some i | _ \<Rightarrow> None),
                     kw_owners = (case map_of d ''owners'' of
                                    Some (PList vs) \<Rightarrow> str_list vs | _ \<Rightarrow> None),
                     kw_is_pointer = (case map_of d ''is_pointer'' of
                                        Some (PBool b) \<Rightarrow> Some b | _ \<Rightarrow> None)\<rparr>
           else Inl (TypeError ''bad keyword arguments''))
      | _ \<Rightarrow> Inl (TypeError ''argument after ** must be a mapping''))"

text \<open>
  \<^verbatim>\<open>assemble_result_pointer(registration, torch_type)\<close>. The handler of KeyError builds
  the message of its TypeError from \<^verbatim>\<open>_tensor_type\<close>, a name that is bound nowhere in
  the module, so what the handler raises is NameError.
\<close>

definition assemble_result_pointer ::
  "pyval \<Rightarrow> pyval \<Rightarrow> world \<Rightarrow> (error + torch_obj) \<times> world" where
  "assemble_result_pointer registration ty w =
     (case types_guard w ty of
        Inl e \<Rightarrow> (if e = KeyError then (Inl (NameError ''_tensor_type''), w) else (Inl e, w))
      | Inr cls \<Rightarrow>
          (let (result, w1) = construct cls w
           in case kwargs_of registration of
                Inl e \<Rightarrow> (Inl e, w1)
              | Inr kw \<Rightarrow> (let (r, w2) = register_object result kw w1 in (Inr r, w2))))"


section \<open>Sending and getting tensors\<close>

text \<open>
  \<^verbatim>\<open>send_\<close>, as \<^verbatim>\<open>hook_tensor_send\<close> installs it on \<open>tensor_type\<close>. The loop publishes
  the object as it is registered at that moment, data included; only afterwards is the
  local storage replaced by that of \<^verbatim>\<open>tensor_type(0)\<close>.
\<close>

definition tensor_send ::
  "string \<Rightarrow> torch_obj \<Rightarrow> workers_arg \<Rightarrow> world \<Rightarrow> (error + torch_obj) \<times> world" where
  "tensor_send tensor_type self workers0 w =
     (case check_workers workers0 of
        Inl e \<Rightarrow> (Inl e, w)
      | Inr workers \<Rightarrow>
          (case reg self of
             None \<Rightarrow> (Inl (AttributeError ''id''), w)
           | Some r \<Rightarrow>
               (let (self1, w1) =
                      register_object self
                        \<lparr>kw_id = Some (obj_id r), kw_owners = Some workers,
                         kw_is_pointer = None\<rparr> w;
                    w2 = fold (\<lambda>worker. send_obj self1 worker) workers w1;
                    (placeholder, w3) = construct tensor_type w2;
                    self2 = old_set self1 placeholder;
                    (self3, w4) =
                      register_object self2
                        \<lparr>kw_id = Some (obj_id r), kw_owners = Some workers,
                         kw_is_pointer = Some True\<rparr> w3
                in (Inr self3, w4))))"

text \<open>The default \<^verbatim>\<open>reduce\<close> of \<^verbatim>\<open>get_\<close>: \<^verbatim>\<open>lambda x: x[0]\<close>.\<close>

definition first_collected :: "torch_obj list \<Rightarrow> error + torch_obj" where
  "first_collected x = (case x of [] \<Rightarrow> Inl IndexError | x0 # _ \<Rightarrow> Inr x0)"

text \<open>The loop of \<^verbatim>\<open>get_\<close> over \<^verbatim>\<open>self.owners\<close>.\<close>

fun collect ::
  "env \<Rightarrow> torch_obj \<Rightarrow> string list \<Rightarrow> torch_obj list \<Rightarrow> world
     \<Rightarrow> (error + torch_obj list) \<times> world" where
  "collect E self [] collected w = (Inr collected, w)"
| "collect E self (worker # rest) collected w =
     (case request_obj E self worker w of
        (Inl e, w1) \<Rightarrow> (Inl e, w1)
      | (Inr x, w1) \<Rightarrow>
          (case reg x of
             None \<Rightarrow> (Inl (AttributeError ''id''), w1)
           | Some rx \<Rightarrow>
               (let (x1, w2) =
                      register_object x
                        \<lparr>kw_id = Some (obj_id rx), kw_owners = None, kw_is_pointer = None\<rparr> w1
                in collect E self rest (collected @ [x1]) w2)))"

text \<open>\<^verbatim>\<open>get_\<close>, as \<^verbatim>\<open>hook_tensor_get\<close> installs it.\<close>

definition tensor_get ::
  "env \<Rightarrow> torch_obj \<Rightarrow> (torch_obj list \<Rightarrow> error + torch_obj) \<Rightarrow> world
     \<Rightarrow> (error + torch_obj) \<times> world" where
  "tensor_get E self reduce w =
     (case reg self of
        None \<Rightarrow> (Inl (AttributeError ''owners''), w)
      | Some r \<Rightarrow>
          (if worker_id w \<in> set (owners r) then (Inr self, w)
           else (case collect E self (owners r) [] w of
                   (Inl e, w1) \<Rightarrow> (Inl e, w1)
                 | (Inr collected, w1) \<Rightarrow>
                     (case reduce collected of
                        Inl e \<Rightarrow> (Inl e, w1)
                      | Inr payload \<Rightarrow>
                          (let self1 = old_set self payload;
                               (self2, w2) =
                                 register_object self1
                                   \<lparr>kw_id = Some (obj_id r), kw_owners = None,
                                    kw_is_pointer = None\<rparr> w1
                           in (Inr self2, w2))))))"


section \<open>The dispatcher\<close>

text \<open>\<^verbatim>\<open>part.func(*args, **kwargs)\<close>: the captured call, run in this process.\<close>

definition call_func ::
  "env \<Rightarrow> string \<Rightarrow> pyval list \<Rightarrow> (string \<times> pyval) list \<Rightarrow> world
     \<Rightarrow> (error + pyval) \<times> world" where
  "call_func E f args kwargs w =
     (kernel E f args kwargs, w\<lparr>executed := executed w @ [(f, args, kwargs)]\<rparr>)"

text \<open>\<^verbatim>\<open>type(result) in self.tensorvar_types\<close>\<close>

definition tracked :: "world \<Rightarrow> pyval \<Rightarrow> bool" where
  "tracked w result =
     (case result of PTorch t \<Rightarrow> torch_type t \<in> set (tensorvar_types w) | _ \<Rightarrow> False)"

text \<open>\<^verbatim>\<open>result = self.register_object(result, is_pointer=False)\<close> for a Torch object.\<close>

definition register_result :: "pyval \<Rightarrow> world \<Rightarrow> pyval \<times> world" where
  "register_result result w =
     (case result of
        PTorch t \<Rightarrow>
          (let (t1, w1) =
                 register_object t
                   \<lparr>kw_id = None, kw_owners = None, kw_is_pointer = Some False\<rparr> w
           in (PTorch t1, w1))
      | _ \<Rightarrow> (result, w))"

text \<open>
  The loop of \<^verbatim>\<open>overload_function\<close> over the owners, with the pointer assembled so far.
  \<^verbatim>\<open>except KeyError\<close> covers both subscriptions of the response and the call of
  \<^verbatim>\<open>assemble_result_pointer\<close>; any other exception leaves the function. After the loop
  \<^verbatim>\<open>return pointer\<close> reads a local that no iteration may have bound.
\<close>

fun command_loop ::
  "env \<Rightarrow> command \<Rightarrow> string list \<Rightarrow> pyval option \<Rightarrow> world \<Rightarrow> (error + pyval) \<times> world" where
  "command_loop E command [] pointer w =
     (case pointer of
        None \<Rightarrow> (Inl (UnboundLocalError ''pointer''), w)
      | Some p \<Rightarrow> (Inr p, w))"
| "command_loop E command (worker # rest) pointer w =
     (case send_command E command worker w of
        (Inl e, w1) \<Rightarrow> (Inl e, w1)
      | (Inr response, w1) \<Rightarrow>
          (case getitem response ''registration'' of
             Inl e \<Rightarrow> (if e = KeyError then (Inr response, w1) else (Inl e, w1))
           | Inr registration \<Rightarrow>
               (case getitem response ''torch_type'' of
                  Inl e \<Rightarrow> (if e = KeyError then (Inr response, w1) else (Inl e, w1))
                | Inr ty \<Rightarrow>
                    (case assemble_result_pointer registration ty w1 of
                       (Inl e, w2) \<Rightarrow>
                         (if e = KeyError then (Inr response, w2) else (Inl e, w2))
                     | (Inr p, w2) \<Rightarrow>
                         command_loop E command rest (Some (PTorch p)) w2))))"

text \<open>
  The wrapper \<^verbatim>\<open>command_workers\<close> that \<^verbatim>\<open>overload_function\<close> returns for the function
  named \<open>f\<close> of the \<^verbatim>\<open>torch\<close> module.
\<close>

definition overload_function ::
  "env \<Rightarrow> string \<Rightarrow> pyval list \<Rightarrow> (string \<times> pyval) list \<Rightarrow> world
     \<Rightarrow> (error + pyval) \<times> world" where
  "overload_function E f args kwargs w =
     (let part = \<lparr>p_func = f, p_args = args, p_keywords = kwargs\<rparr>
      in case compile_command part False of
           Inl e \<Rightarrow> (Inl e, w)
         | Inr command \<Rightarrow>
             (let tensorvars = get_tensorvars w command;
                  has_remote = check_remote tensorvars
              in if has_remote
                 then (let (multiple_owners, owners) = get_owners tensorvars
                       in if multiple_owners then (Inl NotImplementedError, w)
                          else command_loop E (replace_in_command E command) owners None w)
                 else (case call_func E f args kwargs w of
                         (Inl e, w1) \<Rightarrow> (Inl e, w1)
                       | (Inr result, w1) \<Rightarrow>
                           (if tracked w1 result
                            then (let (r, w2) = register_result result w1 in (Inr r, w2))
                            else (Inr result, w1)))))"




section \<open>The contents of a variable\<close>

text \<open>
  A hooked \<^verbatim>\<open>Variable\<close>: its registration attributes, the tensors behind the original
  properties \<^verbatim>\<open>old_data\<close> and \<^verbatim>\<open>old_grad\<close> (\<open>None\<close> is Python's \<^verbatim>\<open>None\<close>), and whether
  the attributes \<^verbatim>\<open>data_registered\<close> and \<^verbatim>\<open>grad_registered\<close> have been set.
\<close>

record variable =
  var_reg :: "registration option"
  old_data :: torch_obj
  old_grad :: "torch_obj option"
  data_registered :: bool
  grad_registered :: bool

text \<open>The property \<^verbatim>\<open>new_data\<close> of \<^verbatim>\<open>hook_var_contents\<close>.\<close>

definition new_data :: "variable \<Rightarrow> world \<Rightarrow> (error + torch_obj) \<times> variable \<times> world" where
  "new_data self w =
     (if data_registered self then (Inr (old_data self), self, w)
      else (case var_reg self of
              None \<Rightarrow> (Inl (AttributeError ''id''), self, w)
            | Some r \<Rightarrow>
                (let (d, w1) =
                       register_object (old_data self)
                         \<lparr>kw_id = Some (obj_id r), kw_owners = Some (owners r),
                          kw_is_pointer = Some (is_pointer r)\<rparr> w;
                     self1 = self\<lparr>old_data := d\<rparr>;
                     self2 = self1\<lparr>data_registered := True\<rparr>
                 in (Inr (old_data self2), self2, w1))))"

text \<open>The property \<^verbatim>\<open>new_grad\<close> of \<^verbatim>\<open>hook_var_contents\<close>.\<close>

definition new_grad ::
  "variable \<Rightarrow> world \<Rightarrow> (error + torch_obj option) \<times> variable \<times> world" where
  "new_grad self w =
     (if grad_registered self then (Inr (old_grad self), self, w)
      else (case old_grad self of
              None \<Rightarrow> (Inr (old_grad self), self, w)
            | Some g \<Rightarrow>
                (case var_reg self of
                   None \<Rightarrow> (Inl (AttributeError ''id''), self, w)
                 | Some r \<Rightarrow>
                     (let (g1, w1) =
                            register_object g
                              \<lparr>kw_id = Some (obj_id r), kw_owners = Some (owners r),
                               kw_is_pointer = Some (is_pointer r)\<rparr> w;
                          self1 = self\<lparr>old_grad := Some g1\<rparr>;
                          self2 = self1\<lparr>grad_registered := True\<rparr>
                      in (Inr (old_grad self2), self2, w1)))))"


section \<open>The hooking engine\<close>

text \<open>
  What an attribute of a class can hold, as far as the hooking pass tells values
  apart: a method descriptor or a plain Python function, each with its
  \<^verbatim>\<open>__qualname__\<close>; the wrapper \<^verbatim>\<open>overload_method(pass_method_args(lit))\<close> around a
  value; anything else (a property, a data descriptor, a class), under a label.
\<close>

datatype lit =
    Descr string
  | Func string
  | Hooked lit
  | Other string

text \<open>The namespace of a class as \<^verbatim>\<open>dir\<close> and \<^verbatim>\<open>getattr\<close> see it, inherited names included.\<close>

type_synonym pyclass = "(string \<times> lit) list"

definition dir_class :: "pyclass \<Rightarrow> string list" where
  "dir_class cls = map fst cls"

fun setattr :: "pyclass \<Rightarrow> string \<Rightarrow> lit \<Rightarrow> pyclass" where
  "setattr [] name v = [(name, v)]"
| "setattr ((n, x) # cls) name v =
     (if n = name then (n, v) # cls else (n, x) # setattr cls name v)"

definition getattr :: "pyclass \<Rightarrow> string \<Rightarrow> error + lit" where
  "getattr cls name =
     (case map_of cls name of None \<Rightarrow> Inl (AttributeError name) | Some v \<Rightarrow> Inr v)"

text \<open>\<^verbatim>\<open>dir(object)\<close>\<close>

definition dir_object :: "string list" where
  "dir_object =
     [''__class__'', ''__delattr__'', ''__dir__'', ''__doc__'', ''__eq__'', ''__format__'',
      ''__ge__'', ''__getattribute__'', ''__gt__'', ''__hash__'', ''__init__'',
      ''__init_subclass__'', ''__le__'', ''__lt__'', ''__ne__'', ''__new__'', ''__reduce__'',
      ''__reduce_ex__'', ''__repr__'', ''__setattr__'', ''__sizeof__'', ''__str__'',
      ''__subclasshook__'']"

text \<open>\<^verbatim>\<open>self.exclude\<close> and \<^verbatim>\<open>self.var_exclude\<close>\<close>

definition exclude :: "string list" where
  "exclude =
     [''ndimension'', ''nelement'', ''size'', ''numel'', ''type'', ''tolist'', ''dim'',
      ''__iter__'', ''select'']"

definition var_exclude :: "string list" where
  "var_exclude = [''__getattr__'']"

text \<open>
  \<^verbatim>\<open>functools.wraps\<close> copies \<^verbatim>\<open>__qualname__\<close> from the wrapped object when it has one.
  \<^verbatim>\<open>pass_method_args\<close> wraps the attribute and \<^verbatim>\<open>overload_method\<close> wraps the result, so
  the installed wrapper carries the qualified name of the attribute it replaces, and
  that of \<^verbatim>\<open>pass_args\<close> when the attribute has none.
\<close>

fun qualname :: "lit \<Rightarrow> string option" where
  "qualname (Descr q) = Some q"
| "qualname (Func q) = Some q"
| "qualname (Hooked l) =
     (case qualname l of
        Some q \<Rightarrow> Some q
      | None \<Rightarrow> Some ''HookService.pass_method_args.<locals>.pass_args'')"
| "qualname (Other label) = None"

text \<open>\<^verbatim>\<open>sub in s\<close> for strings.\<close>

fun contains :: "string \<Rightarrow> string \<Rightarrow> bool" where
  "contains sub [] = (sub = [])"
| "contains sub (c # cs) = (take (length sub) (c # cs) = sub \<or> contains sub cs)"

text \<open>\<^verbatim>\<open>inspect.ismethoddescriptor(lit)\<close> and \<^verbatim>\<open>type(lit) == FunctionType\<close>\<close>

fun is_desc :: "lit \<Rightarrow> bool" where
  "is_desc (Descr q) = True"
| "is_desc l = False"

fun is_func :: "lit \<Rightarrow> bool" where
  "is_func (Func q) = True"
| "is_func (Hooked l) = True"
| "is_func l = False"

text \<open>\<^verbatim>\<open>'HookService' in lit.__qualname__\<close>, false when the attribute is missing.\<close>

definition is_service_func :: "lit \<Rightarrow> bool" where
  "is_service_func l =
     (case qualname l of Some q \<Rightarrow> contains ''HookService'' q | None \<Rightarrow> False)"

text \<open>
  \<^verbatim>\<open>re.match('old*', attr) is not None\<close>: the pattern is \<^verbatim>\<open>o\<close>, \<^verbatim>\<open>l\<close> and any number of
  \<^verbatim>\<open>d\<close>, matched at the start of the name.
\<close>

definition is_old :: "string \<Rightarrow> bool" where
  "is_old attr = (take 2 attr = ''ol'')"

text \<open>The test under "Where the overloading happens".\<close>

definition hookable :: "string \<Rightarrow> lit \<Rightarrow> bool" where
  "hookable attr l =
     ((is_desc l \<or> (is_func l \<and> \<not> is_service_func l))
      \<and> attr \<notin> set dir_object \<and> \<not> is_old attr)"

text \<open>
  The body of the loop over \<^verbatim>\<open>dir(...)\<close> in \<^verbatim>\<open>hook_tensor\<close> and \<^verbatim>\<open>hook_variable\<close>, which
  differ in the list of excluded names only, and the loop.
\<close>

definition hook_attr :: "string list \<Rightarrow> pyclass \<Rightarrow> string \<Rightarrow> error + pyclass" where
  "hook_attr excl cls attr =
     (if attr \<in> set excl then Inr cls
      else (case getattr cls attr of
              Inl e \<Rightarrow> Inl e
            | Inr l \<Rightarrow>
                (if hookable attr l
                 then Inr (setattr (setattr cls (''old_'' @ attr) l) attr (Hooked l))
                 else Inr cls)))"

fun hook_loop :: "string list \<Rightarrow> string list \<Rightarrow> pyclass \<Rightarrow> error + pyclass" where
  "hook_loop excl [] cls = Inr cls"
| "hook_loop excl (attr # attrs) cls =
     (case hook_attr excl cls attr of
        Inl e \<Rightarrow> Inl e
      | Inr cls1 \<Rightarrow> hook_loop excl attrs cls1)"

text \<open>
  The hooks of the special methods. \<^verbatim>\<open>hook_tensor___new__\<close> and \<^verbatim>\<open>hook_var___new__\<close> have
  the same body and differ in the qualified name of the function they install.
\<close>

definition hook_tensor_init :: "pyclass \<Rightarrow> pyclass" where
  "hook_tensor_init cls =
     setattr cls ''__init__'' (Func ''HookService.hook_tensor___init__.<locals>.new___init__'')"

definition hook_new :: "string \<Rightarrow> pyclass \<Rightarrow> error + pyclass" where
  "hook_new q cls =
     (case getattr cls ''__new__'' of
        Inl e \<Rightarrow> Inl e
      | Inr l \<Rightarrow> Inr (setattr (setattr cls ''old___new__'' l) ''__new__'' (Func q)))"

definition hook_tensor_new :: "pyclass \<Rightarrow> error + pyclass" where
  "hook_tensor_new cls = hook_new ''HookService.hook_tensor___new__.<locals>.new___new__'' cls"

definition hook_var_new :: "pyclass \<Rightarrow> error + pyclass" where
  "hook_var_new cls = hook_new ''HookService.hook_var___new__.<locals>.new___new__'' cls"

definition hook_tensor_repr :: "pyclass \<Rightarrow> error + pyclass" where
  "hook_tensor_repr cls =
     (case getattr cls ''__repr__'' of
        Inl e \<Rightarrow> Inl e
      | Inr l \<Rightarrow>
          Inr (setattr (setattr cls ''old__repr__'' l) ''__repr__''
                 (Func ''HookService.hook_tensor___repr__.<locals>.new___repr__'')))"

definition hook_var_contents :: "pyclass \<Rightarrow> error + pyclass" where
  "hook_var_contents cls =
     (case getattr cls ''data'' of
        Inl e \<Rightarrow> Inl e
      | Inr d \<Rightarrow>
          (let cls1 = setattr cls ''old_data'' d
           in case getattr cls1 ''grad'' of
                Inl e \<Rightarrow> Inl e
              | Inr g \<Rightarrow>
                  (let cls2 = setattr cls1 ''old_grad'' g;
                       cls3 = setattr cls2 ''data'' (Other ''new_data'')
                   in Inr (setattr cls3 ''grad'' (Other ''new_grad'')))))"

definition hook_tensor_send :: "pyclass \<Rightarrow> pyclass" where
  "hook_tensor_send cls =
     setattr cls ''send_'' (Func ''HookService.hook_tensor_send.<locals>.send_'')"

definition hook_tensor_get :: "pyclass \<Rightarrow> pyclass" where
  "hook_tensor_get cls =
     setattr cls ''get_'' (Func ''HookService.hook_tensor_get.<locals>.get_'')"

text \<open>
  \<^verbatim>\<open>hook_tensor(tensor_type)\<close>. \<^verbatim>\<open>tu.hook_tensor_ser\<close> is not part of the module and is
  taken as the parameter \<open>hook_tensor_ser\<close>.
\<close>

definition hook_tensor :: "(pyclass \<Rightarrow> pyclass) \<Rightarrow> pyclass \<Rightarrow> error + pyclass" where
  "hook_tensor hook_tensor_ser tensor_type =
     (case hook_tensor_new (hook_tensor_init tensor_type) of
        Inl e \<Rightarrow> Inl e
      | Inr cls1 \<Rightarrow>
          (case hook_tensor_repr cls1 of
             Inl e \<Rightarrow> Inl e
           | Inr cls2 \<Rightarrow>
               (case hook_loop exclude (dir_class cls2) cls2 of
                  Inl e \<Rightarrow> Inl e
                | Inr cls3 \<Rightarrow>
                    Inr (hook_tensor_ser (hook_tensor_get (hook_tensor_send cls3))))))"

text \<open>\<^verbatim>\<open>hook_variable()\<close>, on the class \<^verbatim>\<open>torch.autograd.variable.Variable\<close>.\<close>

definition hook_variable :: "pyclass \<Rightarrow> error + pyclass" where
  "hook_variable var =
     (case hook_var_new var of
        Inl e \<Rightarrow> Inl e
      | Inr cls1 \<Rightarrow>
          (case hook_var_contents cls1 of
             Inl e \<Rightarrow> Inl e
           | Inr cls2 \<Rightarrow> hook_loop (exclude @ var_exclude) (dir_class cls2) cls2))"

text \<open>Running a hooking pass on the outcome of an earlier one, and reading an attribute of the outcome.\<close>

definition again :: "(pyclass \<Rightarrow> error + pyclass) \<Rightarrow> error + pyclass \<Rightarrow> error + pyclass" where
  "again pass r = (case r of Inl e \<Rightarrow> Inl e | Inr cls \<Rightarrow> pass cls)"

definition attr_of :: "error + pyclass \<Rightarrow> string \<Rightarrow> error + lit" where
  "attr_of r name = (case r of Inl e \<Rightarrow> Inl e | Inr cls \<Rightarrow> getattr cls name)"


section \<open>Notions used in the statements, and example scenarios\<close>


text \<open>
  A payload retrieved by \<^verbatim>\<open>get_\<close> after \<^verbatim>\<open>register_object(x, id=x.id)\<close>, and the payloads
  of all owners in owner order.
\<close>

definition registered_payload :: "torch_obj \<Rightarrow> torch_obj" where
  "registered_payload x =
     (case reg x of
        Some rx \<Rightarrow>
          x\<lparr>reg := Some \<lparr>obj_id = obj_id rx, owners = owners rx, is_pointer = False\<rparr>\<rparr>
      | None \<Rightarrow> x)"

definition payloads :: "env \<Rightarrow> int \<Rightarrow> string list \<Rightarrow> torch_obj list" where
  "payloads E i workers = map (\<lambda>worker. registered_payload (respond_obj E worker i)) workers"


text \<open>
  A worker called \<^verbatim>\<open>me\<close> that tracks \<^verbatim>\<open>FloatTensor\<close> and \<^verbatim>\<open>Variable\<close>; a registered
  \<^verbatim>\<open>FloatTensor\<close>; collaborators that give fixed answers; a small tensor class and a
  \<^verbatim>\<open>hook_tensor_ser\<close> that installs \<^verbatim>\<open>ser\<close>.
\<close>

definition home :: world where
  "home = \<lparr>worker_id = ''me'', tensor_types = [''FloatTensor''],
            tensorvar_types = [''FloatTensor'', ''Variable''], next_id = 100,
            registered = [], sent = [], executed = []\<rparr>"

definition tensor_at :: "int \<Rightarrow> string list \<Rightarrow> bool \<Rightarrow> int list \<Rightarrow> torch_obj" where
  "tensor_at i os p xs =
     \<lparr>torch_type = ''FloatTensor'', storage = xs,
      reg = Some \<lparr>obj_id = i, owners = os, is_pointer = p\<rparr>, has_owner_attr = False\<rparr>"

definition answering :: "pyval \<Rightarrow> pyval \<Rightarrow> env" where
  "answering result response =
     \<lparr>kernel = (\<lambda>f args kwargs. Inr result),
      respond_command = (\<lambda>worker command. response),
      respond_obj = (\<lambda>worker i. tensor_at i [worker] False [4, 2]),
      replace_in_command = (\<lambda>command. command)\<rparr>"

definition float_tensor :: pyclass where
  "float_tensor =
     [(''__init__'', Descr ''object.__init__''),
      (''__new__'', Other ''__new__''),
      (''__repr__'', Func ''_TensorBase.__repr__''),
      (''add'', Descr ''FloatTensorBase.add'')]"

definition install_ser :: "pyclass \<Rightarrow> pyclass" where
  "install_ser cls = setattr cls ''ser'' (Func ''hook_tensor_ser.<locals>.ser'')"


section \<open>Auxiliary facts\<close>




lemma register_object_logs [simp]:
  "sent (snd (register_object obj kw w)) = sent w"
  "executed (snd (register_object obj kw w)) = executed w"
  "worker_id (snd (register_object obj kw w)) = worker_id w"
  "tensor_types (snd (register_object obj kw w)) = tensor_types w"
  "tensorvar_types (snd (register_object obj kw w)) = tensorvar_types w"
  by (simp_all add: register_object_def Let_def)

lemma register_object_result [simp]:
  "storage (fst (register_object obj kw w)) = storage obj"
  "torch_type (fst (register_object obj kw w)) = torch_type obj"
  by (simp_all add: register_object_def Let_def)

lemma construct_logs [simp]:
  "sent (snd (construct cls w)) = sent w"
  "executed (snd (construct cls w)) = executed w"
  "worker_id (snd (construct cls w)) = worker_id w"
  by (simp_all add: construct_def new_new_def new_init_def Let_def split_beta)

lemma construct_result [simp]:
  "storage (fst (construct cls w)) = []"
  "torch_type (fst (construct cls w)) = cls"
  by (simp_all add: construct_def new_new_def new_init_def register_object_def Let_def
        split_beta)

lemma assemble_result_pointer_logs [simp]:
  "sent (snd (assemble_result_pointer registration ty w)) = sent w"
  "executed (snd (assemble_result_pointer registration ty w)) = executed w"
  by (simp_all add: assemble_result_pointer_def Let_def split_beta split: sum.splits)







lemma fold_send_obj:
  "sent (fold (\<lambda>worker. send_obj obj worker) workers w)
     = sent w @ map (\<lambda>worker. (Torch_listen_for_obj worker, Ser obj True)) workers"
  by (induction workers arbitrary: w) (simp_all add: send_obj_def)

lemma collect_all:
  assumes "reg self = Some r"
    and "\<forall>worker\<in>set workers. reg (respond_obj E worker (obj_id r)) \<noteq> None"
  shows "\<exists>w'. collect E self workers collected w
             = (Inr (collected @ payloads E (obj_id r) workers), w')
           \<and> sent w' = sent w @ map (\<lambda>worker. (Torch_listen_for_obj_req worker,
                                                 ObjId (obj_id r))) workers
           \<and> registered w' = registered w @ payloads E (obj_id r) workers
           \<and> worker_id w' = worker_id w"
  using assms
proof (induction workers arbitrary: collected w)
  case Nil
  then show ?case by (simp add: payloads_def)
next
  case (Cons worker rest)
  let ?x = "respond_obj E worker (obj_id r)"
  from Cons.prems obtain rx where rx: "reg ?x = Some rx" by auto
  let ?w1 = "w\<lparr>sent := sent w @ [(Torch_listen_for_obj_req worker, ObjId (obj_id r))]\<rparr>"
  let ?kw = "\<lparr>kw_id = Some (obj_id rx), kw_owners = None, kw_is_pointer = None\<rparr>"
  let ?w2 = "snd (register_object ?x ?kw ?w1)"
  have x1: "fst (register_object ?x ?kw ?w1) = registered_payload ?x"
    using rx by (simp add: register_object_def registered_payload_def Let_def)
  have step: "collect E self (worker # rest) collected w
                = collect E self rest (collected @ [registered_payload ?x]) ?w2"
    using Cons.prems(1) rx x1 by (simp add: request_obj_def split_beta)
  have w2: "sent ?w2 = sent ?w1" "registered ?w2 = registered w @ [registered_payload ?x]"
    "worker_id ?w2 = worker_id w"
    using rx by (simp_all add: register_object_def registered_payload_def Let_def)
  from Cons.prems have "\<forall>worker\<in>set rest. reg (respond_obj E worker (obj_id r)) \<noteq> None"
    by simp
  from Cons.IH [OF Cons.prems(1) this, of "collected @ [registered_payload ?x]" ?w2]
  show ?case
    unfolding step using w2 by (auto simp: payloads_def)
qed


lemma map_of_setattr [simp]: "map_of (setattr cls name v) = (map_of cls)(name \<mapsto> v)"
  by (induction cls name v rule: setattr.induct) auto

lemma is_old_saved [simp]: "is_old (CHR ''o'' # CHR ''l'' # rest)"
  by (simp add: is_old_def)

lemma hook_attr_map:
  assumes "hook_attr excl cls attr = Inr cls1"
  shows "map_of cls1 =
           (case map_of cls attr of
              Some l \<Rightarrow> (if attr \<notin> set excl \<and> hookable attr l
                          then (map_of cls)(''old_'' @ attr \<mapsto> l, attr \<mapsto> Hooked l)
                          else map_of cls)
            | None \<Rightarrow> map_of cls)"
  using assms
  by (auto simp: hook_attr_def getattr_def split: if_splits option.splits)

lemma hook_attr_succeeds:
  assumes "attr \<in> fst ` set cls"
  shows "\<exists>cls1. hook_attr excl cls attr = Inr cls1 \<and> fst ` set cls \<subseteq> fst ` set cls1"
proof -
  from assms obtain l where "map_of cls attr = Some l"
    by (metis domD dom_map_of_conv_image_fst)
  then show ?thesis
    by (auto simp: hook_attr_def getattr_def dom_map_of_conv_image_fst [symmetric])
qed

lemma hook_loop_succeeds:
  "set attrs \<subseteq> fst ` set cls \<Longrightarrow> \<exists>cls'. hook_loop excl attrs cls = Inr cls'"
proof (induction attrs arbitrary: cls)
  case Nil
  then show ?case by simp
next
  case (Cons attr attrs)
  then obtain cls1 where s: "hook_attr excl cls attr = Inr cls1"
    and d: "fst ` set cls \<subseteq> fst ` set cls1"
    using hook_attr_succeeds [of attr cls excl] by auto
  with Cons.prems have "set attrs \<subseteq> fst ` set cls1" by auto
  from Cons.IH [OF this] s show ?case by simp
qed

lemma hook_loop_excluded:
  assumes "hook_loop excl attrs cls = Inr cls'"
    and "a \<in> set excl \<or> a \<in> set dir_object" and "\<not> is_old a"
  shows "map_of cls' a = map_of cls a"
  using assms
proof (induction attrs arbitrary: cls)
  case Nil
  then show ?case by simp
next
  case (Cons attr attrs)
  from Cons.prems(1) obtain cls1 where s: "hook_attr excl cls attr = Inr cls1"
    and r: "hook_loop excl attrs cls1 = Inr cls'"
    by (auto split: sum.splits)
  have "a \<noteq> ''old_'' @ attr" using Cons.prems(3) by auto
  with Cons.prems(2) have "map_of cls1 a = map_of cls a"
    unfolding hook_attr_map [OF s] by (auto simp: hookable_def split: option.splits)
  with Cons.IH [OF r Cons.prems(2,3)] show ?case by simp
qed

lemma hook_loop_reserved:
  assumes "hook_loop excl attrs cls = Inr cls'" and "distinct attrs"
    and "is_old a" and "map_of cls' a = Some v"
  shows "map_of cls a = Some v \<or> (\<exists>b\<in>set attrs. map_of cls b = Some v)"
  using assms
proof (induction attrs arbitrary: cls)
  case Nil
  then show ?case by simp
next
  case (Cons attr attrs)
  from Cons.prems(1) obtain cls1 where s: "hook_attr excl cls attr = Inr cls1"
    and r: "hook_loop excl attrs cls1 = Inr cls'"
    by (auto split: sum.splits)
  from Cons.prems(2) have d: "distinct attrs" and n: "attr \<notin> set attrs" by auto
  from Cons.IH [OF r d Cons.prems(3,4)]
  have "map_of cls1 a = Some v \<or> (\<exists>b\<in>set attrs. map_of cls1 b = Some v)" .
  then show ?case
    unfolding hook_attr_map [OF s] using n Cons.prems(3)
    by (auto simp: hookable_def split: option.splits if_splits)
qed

lemma hook_loop_untouched:
  assumes "hook_loop excl attrs cls = Inr cls'" and "b \<notin> set attrs" and "\<not> is_old b"
  shows "map_of cls' b = map_of cls b
           \<and> map_of cls' (''old_'' @ b) = map_of cls (''old_'' @ b)"
  using assms
proof (induction attrs arbitrary: cls)
  case Nil
  then show ?case by simp
next
  case (Cons attr attrs)
  from Cons.prems(1) obtain cls1 where s: "hook_attr excl cls attr = Inr cls1"
    and r: "hook_loop excl attrs cls1 = Inr cls'"
    by (auto split: sum.splits)
  from Cons.prems(2) have n: "attr \<noteq> b" "b \<notin> set attrs" by auto
  have "b \<noteq> ''old_'' @ attr" using Cons.prems(3) by auto
  with n have "map_of cls1 b = map_of cls b
                 \<and> map_of cls1 (''old_'' @ b) = map_of cls (''old_'' @ b)"
    unfolding hook_attr_map [OF s] by (auto simp: hookable_def split: option.splits)
  with Cons.IH [OF r n(2) Cons.prems(3)] show ?case by simp
qed

lemma hook_loop_wraps:
  assumes "hook_loop excl attrs cls = Inr cls'" and "distinct attrs"
    and "b \<in> set attrs" and "b \<notin> set excl" and "map_of cls b = Some l" and "hookable b l"
  shows "map_of cls' b = Some (Hooked l) \<and> map_of cls' (''old_'' @ b) = Some l"
  using assms
proof (induction attrs arbitrary: cls)
  case Nil
  then show ?case by simp
next
  case (Cons attr attrs)
  from Cons.prems(1) obtain cls1 where s: "hook_attr excl cls attr = Inr cls1"
    and r: "hook_loop excl attrs cls1 = Inr cls'"
    by (auto split: sum.splits)
  from Cons.prems(2) have d: "distinct attrs" and n: "attr \<notin> set attrs" by auto
  have o: "\<not> is_old b" using Cons.prems(6) by (simp add: hookable_def)
  show ?case
  proof (cases "attr = b")
    case True
    with Cons.prems(4,5,6)
    have "map_of cls1 b = Some (Hooked l) \<and> map_of cls1 (''old_'' @ b) = Some l"
      unfolding hook_attr_map [OF s] by auto
    with hook_loop_untouched [OF r _ o] n True show ?thesis by simp
  next
    case False
    have "b \<noteq> ''old_'' @ attr" using o by auto
    with False Cons.prems(5) have "map_of cls1 b = Some l"
      unfolding hook_attr_map [OF s] by (auto split: option.splits)
    from Cons.IH [OF r d _ Cons.prems(4) this Cons.prems(6)] False Cons.prems(3)
    show ?thesis by simp
  qed
qed

section \<open>Compiled commands\<close>

text \<open>
  C3. \<^verbatim>\<open>compile_command\<close> is a function of the captured function, arguments, keyword
  arguments and \<^verbatim>\<open>has_self\<close> alone. With \<^verbatim>\<open>has_self\<close> the first positional argument is
  stored under \<^verbatim>\<open>self\<close> and the remaining ones, in their order, under \<^verbatim>\<open>args\<close>; without
  it there is no \<^verbatim>\<open>self\<close> entry and all positional arguments are stored. Two captured
  calls with the same three components compile to equal commands.
\<close>

theorem compile_command_pure:
  "(\<exists>c. compile_command \<lparr>p_func = f, p_args = a # rest, p_keywords = kw\<rparr> True = Inr c
        \<and> c ''has_self'' = Some (PBool True) \<and> c ''self'' = Some a
        \<and> c ''args'' = Some (PTuple rest) \<and> c ''command'' = Some (PStr f)
        \<and> c ''kwargs'' = Some (PDict kw))
   \<and> (\<exists>c. compile_command \<lparr>p_func = f, p_args = as, p_keywords = kw\<rparr> False = Inr c
        \<and> c ''has_self'' = Some (PBool False) \<and> c ''self'' = None
        \<and> c ''args'' = Some (PTuple as) \<and> c ''command'' = Some (PStr f)
        \<and> c ''kwargs'' = Some (PDict kw))
   \<and> (p_func p = p_func q \<and> p_args p = p_args q \<and> p_keywords p = p_keywords q
        \<longrightarrow> compile_command p h = compile_command q h)"
  by (simp add: compile_command_def)

theorem compile_command_pure_witness:
  "p_func \<lparr>p_func = ''add'', p_args = [PInt 1, PInt 2], p_keywords = [(''out'', PNone)]\<rparr>
     = ''add''
   \<and> compiled_item (compile_command
         \<lparr>p_func = ''add'', p_args = [PInt 1, PInt 2], p_keywords = [(''out'', PNone)]\<rparr> True)
       ''self''
     = Inr (PInt 1)
   \<and> compile_command
         \<lparr>p_func = ''add'', p_args = [PInt 1, PInt 2], p_keywords = [(''out'', PNone)]\<rparr> True
     = compile_command
         \<lparr>p_func = ''add'', p_args = PInt 1 # [PInt 2], p_keywords = [(''out'', PNone)]\<rparr> True"
  using compile_command_pure
    [of "''add''" "PInt 1" "[PInt 2]" "[(''out'', PNone)]" "[]"
        "\<lparr>p_func = ''add'', p_args = [PInt 1, PInt 2], p_keywords = [(''out'', PNone)]\<rparr>"
        "\<lparr>p_func = ''add'', p_args = PInt 1 # [PInt 2], p_keywords = [(''out'', PNone)]\<rparr>"
        True]
  by (auto simp: compiled_item_def)

text \<open>
  C4, as the code has it. In every compiled command \<^verbatim>\<open>arg_types\<close> is the list of the type
  names of the positional arguments under \<^verbatim>\<open>args\<close>, in their order, and \<^verbatim>\<open>kwarg_types\<close>
  is the list of the type names of the keyword arguments' values, in the order of the
  keyword arguments and without their names; the two lists are built independently.
\<close>

theorem compile_command_types:
  assumes "compile_command p h = Inr c"
  shows "\<exists>as. c ''args'' = Some (PTuple as)
           \<and> as = (if h then tl (p_args p) else p_args p)
           \<and> c ''arg_types'' = Some (PList (map (\<lambda>x. PStr (type_name x)) as))
           \<and> c ''kwarg_types'' =
               Some (PList (map (\<lambda>(x, v). PStr (type_name v)) (p_keywords p)))"
  using assms by (auto simp: compile_command_def Let_def split: if_splits list.splits)

theorem compile_command_types_witness:
  "compile_command
      \<lparr>p_func = ''sum'', p_args = [PInt 1, PStr ''a''], p_keywords = [(''dim'', PInt 0)]\<rparr> False
    = Inr [''has_self'' \<mapsto> PBool False, ''command'' \<mapsto> PStr ''sum'',
           ''args'' \<mapsto> PTuple [PInt 1, PStr ''a''], ''kwargs'' \<mapsto> PDict [(''dim'', PInt 0)],
           ''arg_types'' \<mapsto> PList [PStr ''int'', PStr ''str''],
           ''kwarg_types'' \<mapsto> PList [PStr ''int'']]
   \<and> (\<exists>as. as = [PInt 1, PStr ''a'']
          \<and> PList [PStr ''int'', PStr ''str''] = PList (map (\<lambda>x. PStr (type_name x)) as))"
proof -
  let ?p = "\<lparr>p_func = ''sum'', p_args = [PInt 1, PStr ''a''],
             p_keywords = [(''dim'', PInt 0)]\<rparr>"
  let ?c = "[''has_self'' \<mapsto> PBool False, ''command'' \<mapsto> PStr ''sum'',
             ''args'' \<mapsto> PTuple [PInt 1, PStr ''a''], ''kwargs'' \<mapsto> PDict [(''dim'', PInt 0)],
             ''arg_types'' \<mapsto> PList [PStr ''int'', PStr ''str''],
             ''kwarg_types'' \<mapsto> PList [PStr ''int'']]"
  have c: "compile_command ?p False = Inr ?c"
    by (simp add: compile_command_def)
  from compile_command_types [OF c] c show ?thesis by simp
qed

text \<open>
  The claim C4 fails for \<^verbatim>\<open>kwarg_types\<close>: for the call \<^verbatim>\<open>sum(1, dim=0)\<close> the entry is the
  list \<^verbatim>\<open>['int']\<close>, not the mapping from \<^verbatim>\<open>dim\<close> to \<^verbatim>\<open>int\<close> of the data model.
\<close>

theorem kwarg_types_counterexample:
  "compiled_item (compile_command
       \<lparr>p_func = ''sum'', p_args = [PInt 1], p_keywords = [(''dim'', PInt 0)]\<rparr> False)
     ''kwarg_types''
     = Inr (PList [PStr ''int''])
   \<and> kwarg_types_spec [(''dim'', PInt 0)] = PDict [(''dim'', PStr ''int'')]
   \<and> compiled_item (compile_command
       \<lparr>p_func = ''sum'', p_args = [PInt 1], p_keywords = [(''dim'', PInt 0)]\<rparr> False)
     ''kwarg_types''
     \<noteq> Inr (kwarg_types_spec [(''dim'', PInt 0)])"
  by (simp add: compile_command_def compiled_item_def kwarg_types_spec_def)


section \<open>Moving tensors between workers\<close>

text \<open>
  C5. For a registered tensor and a non-empty sequence of destinations, \<^verbatim>\<open>send_\<close> returns
  normally; it publishes the tensor with its data, registered under its own id and owned
  by the destinations, once to each destination in their order; and the tensor it
  leaves behind has the same class and the same id, a zero-sized storage, the
  destinations as owners and \<^verbatim>\<open>is_pointer\<close> set.
\<close>

theorem send_leaves_pointer:
  assumes "reg self = Some r" and "workers \<noteq> []"
  shows "\<exists>self' w'. tensor_send tensor_type self (Many workers) w = (Inr self', w')
           \<and> reg self' = Some \<lparr>obj_id = obj_id r, owners = workers, is_pointer = True\<rparr>
           \<and> storage self' = [] \<and> torch_type self' = torch_type self
           \<and> sent w' = sent w @ map (\<lambda>worker. (Torch_listen_for_obj worker,
                  Ser (self\<lparr>reg := Some \<lparr>obj_id = obj_id r, owners = workers,
                                           is_pointer = False\<rparr>\<rparr>) True)) workers"
  using assms
  by (simp add: tensor_send_def check_workers_def split_beta Let_def old_set_def
        fold_send_obj)
     (simp add: register_object_def Let_def)

theorem send_leaves_pointer_witness:
  "reg (tensor_at 5 [''me''] False [1, 2, 3])
     = Some \<lparr>obj_id = 5, owners = [''me''], is_pointer = False\<rparr>
   \<and> [''bob'', ''alice''] \<noteq> []
   \<and> (\<exists>self' w'. tensor_send ''FloatTensor'' (tensor_at 5 [''me''] False [1, 2, 3])
          (Many [''bob'', ''alice'']) home = (Inr self', w')
        \<and> reg self' = Some \<lparr>obj_id = 5, owners = [''bob'', ''alice''], is_pointer = True\<rparr>
        \<and> storage self' = []
        \<and> sent w' =
            [(Torch_listen_for_obj ''bob'', Ser (tensor_at 5 [''bob'', ''alice''] False [1, 2, 3]) True),
             (Torch_listen_for_obj ''alice'',
              Ser (tensor_at 5 [''bob'', ''alice''] False [1, 2, 3]) True)])"
proof -
  have r: "reg (tensor_at 5 [''me''] False [1, 2, 3])
             = Some \<lparr>obj_id = 5, owners = [''me''], is_pointer = False\<rparr>"
    by (simp add: tensor_at_def)
  have n: "[''bob'', ''alice''] \<noteq> ([] :: string list)" by simp
  have h: "sent home = []" by (simp add: home_def)
  from send_leaves_pointer [OF r n, of "''FloatTensor''" home] r
  show ?thesis by (auto simp: h tensor_at_def)
qed

text \<open>
  C6. \<^verbatim>\<open>get_\<close> returns the tensor and the state unchanged when the local worker is among
  the owners. Otherwise, when every owner delivers an object that carries an id and
  \<^verbatim>\<open>reduce\<close> returns a payload for the collected objects, it requests the tensor's id
  from each owner in owner order, registers each delivered object, takes the storage of
  the payload that \<^verbatim>\<open>reduce\<close> returns, and registers the tensor last, under its original
  id, as a non-pointer with the owners it had. The default \<^verbatim>\<open>reduce\<close> returns the first
  collected object.
\<close>

theorem get_retrieves:
  "(reg self = Some r \<and> worker_id w \<in> set (owners r)
      \<longrightarrow> tensor_get E self reduce w = (Inr self, w))
   \<and> (reg self = Some r \<and> worker_id w \<notin> set (owners r)
      \<and> (\<forall>worker\<in>set (owners r). reg (respond_obj E worker (obj_id r)) \<noteq> None)
      \<and> reduce (payloads E (obj_id r) (owners r)) = Inr payload
      \<longrightarrow> (\<exists>self' w'. tensor_get E self reduce w = (Inr self', w')
             \<and> sent w' = sent w @ map (\<lambda>worker. (Torch_listen_for_obj_req worker,
                                                   ObjId (obj_id r))) (owners r)
             \<and> registered w' = registered w @ payloads E (obj_id r) (owners r) @ [self']
             \<and> storage self' = storage payload
             \<and> reg self' = Some \<lparr>obj_id = obj_id r, owners = owners r, is_pointer = False\<rparr>))
   \<and> first_collected (x # xs) = Inr x"
proof (intro conjI impI)
  assume "reg self = Some r \<and> worker_id w \<in> set (owners r)"
  then show "tensor_get E self reduce w = (Inr self, w)"
    by (simp add: tensor_get_def)
next
  assume a: "reg self = Some r \<and> worker_id w \<notin> set (owners r)
      \<and> (\<forall>worker\<in>set (owners r). reg (respond_obj E worker (obj_id r)) \<noteq> None)
      \<and> reduce (payloads E (obj_id r) (owners r)) = Inr payload"
  then obtain w1 where
    c: "collect E self (owners r) [] w = (Inr (payloads E (obj_id r) (owners r)), w1)"
    and s: "sent w1 = sent w @ map (\<lambda>worker. (Torch_listen_for_obj_req worker,
                                              ObjId (obj_id r))) (owners r)"
    and g: "registered w1 = registered w @ payloads E (obj_id r) (owners r)"
    using collect_all [of self r "owners r" E "[]" w] by auto
  from a c s g
  show "\<exists>self' w'. tensor_get E self reduce w = (Inr self', w')
             \<and> sent w' = sent w @ map (\<lambda>worker. (Torch_listen_for_obj_req worker,
                                                   ObjId (obj_id r))) (owners r)
             \<and> registered w' = registered w @ payloads E (obj_id r) (owners r) @ [self']
             \<and> storage self' = storage payload
             \<and> reg self' = Some \<lparr>obj_id = obj_id r, owners = owners r, is_pointer = False\<rparr>"
    by (simp add: tensor_get_def old_set_def register_object_def Let_def)
next
  show "first_collected (x # xs) = Inr x"
    by (simp add: first_collected_def)
qed

theorem get_retrieves_witness:
  "tensor_get (answering PNone PNone) (tensor_at 7 [''me''] False [1]) first_collected home
     = (Inr (tensor_at 7 [''me''] False [1]), home)
   \<and> worker_id home \<notin> set [''bob'']
   \<and> first_collected (payloads (answering PNone PNone) 5 [''bob''])
       = Inr (tensor_at 5 [''bob''] False [4, 2])
   \<and> (\<exists>self' w'. tensor_get (answering PNone PNone) (tensor_at 5 [''bob''] True [])
          first_collected home = (Inr self', w')
        \<and> sent w' = [(Torch_listen_for_obj_req ''bob'', ObjId 5)]
        \<and> storage self' = [4, 2]
        \<and> reg self' = Some \<lparr>obj_id = 5, owners = [''bob''], is_pointer = False\<rparr>)"
proof -
  let ?E = "answering PNone PNone"
  have l: "reg (tensor_at 7 [''me''] False [1])
             = Some \<lparr>obj_id = 7, owners = [''me''], is_pointer = False\<rparr>"
    and p: "reg (tensor_at 5 [''bob''] True [])
             = Some \<lparr>obj_id = 5, owners = [''bob''], is_pointer = True\<rparr>"
    by (simp_all add: tensor_at_def)
  have h: "worker_id home = ''me''" "sent home = []"
    by (simp_all add: home_def)
  have d: "\<forall>worker\<in>set [''bob'']. reg (respond_obj ?E worker 5) \<noteq> None"
    by (simp add: answering_def tensor_at_def)
  have f: "first_collected (payloads ?E 5 [''bob'']) = Inr (tensor_at 5 [''bob''] False [4, 2])"
    by (simp add: first_collected_def payloads_def registered_payload_def answering_def
          tensor_at_def)
  have a: "tensor_get ?E (tensor_at 7 [''me''] False [1]) first_collected home
             = (Inr (tensor_at 7 [''me''] False [1]), home)"
    by (rule get_retrieves
          [of "tensor_at 7 [''me''] False [1]"
              "\<lparr>obj_id = 7, owners = [''me''], is_pointer = False\<rparr>" home ?E first_collected,
           THEN conjunct1, THEN mp])
       (simp add: l h)
  have "\<exists>self' w'. tensor_get ?E (tensor_at 5 [''bob''] True []) first_collected home
                      = (Inr self', w')
          \<and> sent w' = sent home @ map (\<lambda>worker. (Torch_listen_for_obj_req worker, ObjId 5))
                                     [''bob'']
          \<and> registered w' = registered home @ payloads ?E 5 [''bob''] @ [self']
          \<and> storage self' = storage (tensor_at 5 [''bob''] False [4, 2])
          \<and> reg self' = Some \<lparr>obj_id = 5, owners = [''bob''], is_pointer = False\<rparr>"
    using get_retrieves
      [of "tensor_at 5 [''bob''] True []"
          "\<lparr>obj_id = 5, owners = [''bob''], is_pointer = True\<rparr>" home ?E first_collected
          "tensor_at 5 [''bob''] False [4, 2]",
       THEN conjunct2, THEN conjunct1, THEN mp]
      p h d f
    by simp
  then obtain self' w' where
    g: "tensor_get ?E (tensor_at 5 [''bob''] True []) first_collected home = (Inr self', w')"
    and s: "sent w' = [(Torch_listen_for_obj_req ''bob'', ObjId 5)]"
    and t: "storage self' = [4, 2]"
      "reg self' = Some \<lparr>obj_id = 5, owners = [''bob''], is_pointer = False\<rparr>"
    by (auto simp: h tensor_at_def)
  from g s t a f h show ?thesis by auto
qed

section \<open>Ownership resolution and dispatch\<close>






section \<open>Responses of the owner\<close>




text \<open>
  A response that is not a dictionary is outside the two cases above. The answer
  \<^verbatim>\<open>{'numeric': 3}\<close> is processed to the number 3, and subscripting the number raises
  TypeError, which \<^verbatim>\<open>except KeyError\<close> does not catch.
\<close>

lemma numeric_response_type_error:
  "fst (overload_function (answering PNone (PDict [(''numeric'', PInt 3)]))
        ''sum'' [PTorch (tensor_at 5 [''bob''] True [])] [] home)
     = Inl (TypeError ''not subscriptable with a string key'')"
  by (simp add: overload_function_def compile_command_def get_tensorvars_def operands_def
        check_remote_def remote_def get_owners_def owners_of_def send_command_def
        process_response_def answering_def home_def tensor_at_def)

text \<open>
  C8. A result type that is not a tracked class makes \<^verbatim>\<open>tu.types_guard\<close> raise KeyError;
  the handler in \<^verbatim>\<open>assemble_result_pointer\<close> means to raise TypeError with the type in the
  message, but formats the message from the unbound name \<^verbatim>\<open>_tensor_type\<close>, so the call
  ends in NameError: for the type name \<^verbatim>\<open>Foo\<close> at the worker \<^verbatim>\<open>me\<close>, and through the
  dispatcher as well.
\<close>

theorem unknown_type_raises_name_error:
  "assemble_result_pointer
     (PDict [(''id'', PInt 9), (''owners'', PList [PStr ''bob'']), (''is_pointer'', PBool True)])
     (PStr ''Foo'') home
     = (Inl (NameError ''_tensor_type''), home)
   \<and> fst (overload_function
        (answering PNone
           (PDict [(''registration'',
                    PDict [(''id'', PInt 9), (''owners'', PList [PStr ''bob'']),
                           (''is_pointer'', PBool True)]),
                   (''torch_type'', PStr ''Foo'')]))
        ''neg'' [PTorch (tensor_at 5 [''bob''] True [])] [] home)
     = Inl (NameError ''_tensor_type'')"
  by (simp add: assemble_result_pointer_def types_guard_def overload_function_def
        compile_command_def get_tensorvars_def operands_def check_remote_def remote_def
        get_owners_def owners_of_def send_command_def process_response_def answering_def
        home_def tensor_at_def)


section \<open>The contents of a hooked variable\<close>

text \<open>
  C10. The first access to \<^verbatim>\<open>data\<close> of a registered variable registers the tensor behind
  it with the id, the owners and the pointer flag of the variable, and sets the flag
  \<^verbatim>\<open>data_registered\<close>; an access after that returns the same tensor and changes neither
  the variable nor the registry, so the same holds for every later access. The same is
  true of \<^verbatim>\<open>grad\<close> when there is a gradient; while the gradient is \<^verbatim>\<open>None\<close> the access
  returns \<^verbatim>\<open>None\<close> and registers nothing.
\<close>

theorem variable_contents_registered_once:
  "(var_reg v = Some r \<and> \<not> data_registered v
      \<longrightarrow> (\<exists>d v' w'. new_data v w = (Inr d, v', w')
             \<and> d = (old_data v)\<lparr>reg := Some r\<rparr>
             \<and> registered w' = registered w @ [d]
             \<and> data_registered v'
             \<and> new_data v' w' = (Inr d, v', w')))
   \<and> (var_reg v = Some r \<and> \<not> grad_registered v \<and> old_grad v = Some g
      \<longrightarrow> (\<exists>g' v' w'. new_grad v w = (Inr (Some g'), v', w')
             \<and> g' = g\<lparr>reg := Some r\<rparr>
             \<and> registered w' = registered w @ [g']
             \<and> grad_registered v'
             \<and> new_grad v' w' = (Inr (Some g'), v', w')))
   \<and> (\<not> grad_registered v \<and> old_grad v = None \<longrightarrow> new_grad v w = (Inr None, v, w))"
  by (simp add: new_data_def new_grad_def register_object_def Let_def)

theorem variable_contents_registered_once_witness:
  "(\<exists>d v' w'.
      new_data \<lparr>var_reg = Some \<lparr>obj_id = 9, owners = [''bob''], is_pointer = True\<rparr>,
                old_data = \<lparr>torch_type = ''FloatTensor'', storage = [], reg = None,
                            has_owner_attr = False\<rparr>,
                old_grad = None, data_registered = False, grad_registered = False\<rparr> home
        = (Inr d, v', w')
      \<and> d = tensor_at 9 [''bob''] True [] \<and> registered w' = [d]
      \<and> new_data v' w' = (Inr d, v', w'))
   \<and> (\<exists>g' v' w'.
      new_grad \<lparr>var_reg = Some \<lparr>obj_id = 9, owners = [''bob''], is_pointer = True\<rparr>,
                old_data = tensor_at 9 [''bob''] True [],
                old_grad = Some \<lparr>torch_type = ''FloatTensor'', storage = [], reg = None,
                                  has_owner_attr = False\<rparr>,
                data_registered = True, grad_registered = False\<rparr> home
        = (Inr (Some g'), v', w')
      \<and> g' = tensor_at 9 [''bob''] True [] \<and> registered w' = [g']
      \<and> new_grad v' w' = (Inr (Some g'), v', w'))
   \<and> fst (new_grad \<lparr>var_reg = Some \<lparr>obj_id = 9, owners = [''bob''], is_pointer = True\<rparr>,
                old_data = tensor_at 9 [''bob''] True [],
                old_grad = None, data_registered = True, grad_registered = False\<rparr> home)
       = Inr None"
proof -
  let ?r = "\<lparr>obj_id = 9, owners = [''bob''], is_pointer = True\<rparr>"
  let ?t = "\<lparr>torch_type = ''FloatTensor'', storage = [], reg = None, has_owner_attr = False\<rparr>"
  let ?v1 = "\<lparr>var_reg = Some ?r, old_data = ?t, old_grad = None, data_registered = False,
              grad_registered = False\<rparr>"
  let ?v2 = "\<lparr>var_reg = Some ?r, old_data = tensor_at 9 [''bob''] True [],
              old_grad = Some ?t, data_registered = True, grad_registered = False\<rparr>"
  let ?v3 = "\<lparr>var_reg = Some ?r, old_data = tensor_at 9 [''bob''] True [],
              old_grad = None, data_registered = True, grad_registered = False\<rparr>"
  have h: "registered home = []" by (simp add: home_def)
  have e: "?t\<lparr>reg := Some ?r\<rparr> = tensor_at 9 [''bob''] True []"
    by (simp add: tensor_at_def)
  have "\<exists>d v' w'. new_data ?v1 home = (Inr d, v', w')
          \<and> d = (old_data ?v1)\<lparr>reg := Some ?r\<rparr>
          \<and> registered w' = registered home @ [d]
          \<and> data_registered v'
          \<and> new_data v' w' = (Inr d, v', w')"
    by (rule variable_contents_registered_once [of ?v1 ?r home, THEN conjunct1, THEN mp])
       simp
  then have a: "\<exists>d v' w'. new_data ?v1 home = (Inr d, v', w')
                  \<and> d = tensor_at 9 [''bob''] True [] \<and> registered w' = [d]
                  \<and> new_data v' w' = (Inr d, v', w')"
    using e by (auto simp: h)
  have "\<exists>g' v' w'. new_grad ?v2 home = (Inr (Some g'), v', w')
          \<and> g' = ?t\<lparr>reg := Some ?r\<rparr>
          \<and> registered w' = registered home @ [g']
          \<and> grad_registered v'
          \<and> new_grad v' w' = (Inr (Some g'), v', w')"
    by (rule variable_contents_registered_once
          [of ?v2 ?r home ?t, THEN conjunct2, THEN conjunct1, THEN mp])
       simp
  then have b: "\<exists>g' v' w'. new_grad ?v2 home = (Inr (Some g'), v', w')
                  \<and> g' = tensor_at 9 [''bob''] True [] \<and> registered w' = [g']
                  \<and> new_grad v' w' = (Inr (Some g'), v', w')"
    using e by (auto simp: h)
  have "new_grad ?v3 home = (Inr None, ?v3, home)"
    by (rule variable_contents_registered_once
          [of ?v3 _ home, THEN conjunct2, THEN conjunct2, THEN mp])
       simp
  with a b show ?thesis by simp
qed

section \<open>The hooking pass\<close>

text \<open>
  C9, as the code has it. On a class whose names are distinct the loop of a hooking pass
  ends normally. A name in the list of excluded names or in \<^verbatim>\<open>dir(object)\<close> that does not
  match the reserved pattern keeps its value. A name that matches the reserved pattern
  is never wrapped: after the pass it holds a value that some attribute of the class
  held before the pass. A name that is not excluded and whose value passes the test is
  replaced by the wrapper of that value, and the value is saved under \<^verbatim>\<open>old_\<close> followed
  by the name.
\<close>

theorem hook_loop_enumeration:
  assumes "distinct (dir_class cls)"
  shows "\<exists>cls'. hook_loop excl (dir_class cls) cls = Inr cls'
           \<and> ((a \<in> set excl \<or> a \<in> set dir_object) \<and> \<not> is_old a
                \<longrightarrow> map_of cls' a = map_of cls a)
           \<and> (is_old a \<and> map_of cls' a = Some v \<longrightarrow> (\<exists>b. map_of cls b = Some v))
           \<and> (a \<notin> set excl \<and> map_of cls a = Some l \<and> hookable a l
                \<longrightarrow> map_of cls' a = Some (Hooked l) \<and> map_of cls' (''old_'' @ a) = Some l)"
proof -
  obtain cls' where r: "hook_loop excl (dir_class cls) cls = Inr cls'"
    using hook_loop_succeeds [of "dir_class cls" cls excl] by (auto simp: dir_class_def)
  have "a \<in> set (dir_class cls)" if "map_of cls a = Some l"
    using that by (metis dir_class_def domI dom_map_of_conv_image_fst set_map)
  with r assms show ?thesis
    using hook_loop_excluded [OF r, of a] hook_loop_reserved [OF r assms, of a v]
      hook_loop_wraps [OF r assms, of a l]
    by blast
qed

theorem hook_loop_enumeration_witness:
  "distinct (dir_class float_tensor)
   \<and> hookable ''add'' (Descr ''FloatTensorBase.add'')
   \<and> (\<exists>cls'. hook_loop exclude (dir_class float_tensor) float_tensor = Inr cls'
         \<and> map_of cls' ''add'' = Some (Hooked (Descr ''FloatTensorBase.add''))
         \<and> map_of cls' ''old_add'' = Some (Descr ''FloatTensorBase.add'')
         \<and> map_of cls' ''__init__'' = Some (Descr ''object.__init__''))"
proof -
  have d: "distinct (dir_class float_tensor)"
    by (simp add: dir_class_def float_tensor_def)
  have k: "hookable ''add'' (Descr ''FloatTensorBase.add'')"
    by (simp add: hookable_def dir_object_def is_old_def)
  have m: "map_of float_tensor ''add'' = Some (Descr ''FloatTensorBase.add'')"
    "map_of float_tensor ''__init__'' = Some (Descr ''object.__init__'')"
    by (simp_all add: float_tensor_def)
  have e: "''add'' \<notin> set exclude" "''__init__'' \<in> set dir_object" "\<not> is_old ''__init__''"
    "is_old ''old_add''"
    by (simp_all add: exclude_def dir_object_def is_old_def)
  from hook_loop_enumeration [OF d, of exclude "''add''" _ "Descr ''FloatTensorBase.add''"]
  obtain cls' where r: "hook_loop exclude (dir_class float_tensor) float_tensor = Inr cls'"
    and a: "map_of cls' ''add'' = Some (Hooked (Descr ''FloatTensorBase.add''))"
      "map_of cls' ''old_add'' = Some (Descr ''FloatTensorBase.add'')"
    using k m e by auto
  from hook_loop_enumeration [OF d, of exclude "''__init__''"] r e m
  have i: "map_of cls' ''__init__'' = Some (Descr ''object.__init__'')"
    by auto
  from hook_loop_enumeration
         [OF d, of exclude "''old_add''" "Descr ''FloatTensorBase.add''"] r e a
  have "\<exists>b. map_of float_tensor b = Some (Descr ''FloatTensorBase.add'')"
    by auto
  with d k r a i show ?thesis by simp
qed

text \<open>
  The claim C9 fails for a second pass: hooking the class \<open>float_tensor\<close> twice replaces
  the saved original \<^verbatim>\<open>old___new__\<close> by the replacement that the first pass installed, and
  the saved original \<^verbatim>\<open>old_add\<close> by the wrapper that the first pass installed.
\<close>

theorem second_pass_counterexample:
  "attr_of (hook_tensor install_ser float_tensor) ''old___new__'' = Inr (Other ''__new__'')
   \<and> attr_of (again (hook_tensor install_ser) (hook_tensor install_ser float_tensor))
         ''old___new__''
       = Inr (Func ''HookService.hook_tensor___new__.<locals>.new___new__'')
   \<and> attr_of (hook_tensor install_ser float_tensor) ''old_add''
       = Inr (Descr ''FloatTensorBase.add'')
   \<and> attr_of (again (hook_tensor install_ser) (hook_tensor install_ser float_tensor)) ''old_add''
       = Inr (Hooked (Descr ''FloatTensorBase.add''))"
  by (simp add: attr_of_def again_def hook_tensor_def hook_tensor_new_def hook_new_def
        hook_tensor_init_def hook_tensor_repr_def hook_tensor_send_def hook_tensor_get_def
        install_ser_def float_tensor_def getattr_def dir_class_def hook_attr_def hookable_def
        is_service_func_def is_old_def exclude_def dir_object_def)

end
